theory Spec2Isabelle
  imports Main
begin

section \<open>JavaScript values used by the sources\<close>

text \<open>
  Thrown values. \<open>RangeError\<close> is what \<open>BigInt(x)\<close> throws when the Number \<open>x\<close> is not
  an integer (in particular when it is \<open>Infinity\<close> or \<open>NaN\<close>); \<open>TypeError\<close> is what
  \<open>JSON.stringify\<close> throws on a BigInt and \<open>String\<close> on an object that has no conversion
  to a primitive; \<open>Thrown\<close> stands for any other value raised by a collaborator (the HTTP
  client, for instance).
\<close>

datatype js_error = RangeError | TypeError | Thrown string

subsection \<open>Numbers: IEEE 754 doubles holding integers\<close>

text \<open>
  The sources compute \<open>10 ** decimal\<close> and \<open>percent * divisor\<close> on Numbers (binary64) and
  only then convert to BigInt. A natural number is a double when it fits 53 significant
  bits; otherwise the operation rounds to the nearest double, ties to even, and a result
  of \<open>2 ^ 1024\<close> or more is \<open>Infinity\<close> (here \<open>None\<close>).
\<close>

fun bitLength :: "nat \<Rightarrow> nat" where
  "bitLength n = (if n = 0 then 0 else Suc (bitLength (n div 2)))"

declare bitLength.simps [simp del]

definition roundToDouble :: "nat \<Rightarrow> nat option" where
  "roundToDouble k =
     (let e = bitLength k - 53;
          q = k div 2 ^ e;
          r = k mod 2 ^ e;
          q' = (if 2 ^ e < 2 * r \<or> (2 * r = 2 ^ e \<and> odd q) then q + 1 else q);
          v = q' * 2 ^ e
      in if v < 2 ^ 1024 then Some v else None)"

definition roundToDoubleInt :: "int \<Rightarrow> int option" where
  "roundToDoubleInt x = map_option (\<lambda>v. sgn x * int v) (roundToDouble (nat \<bar>x\<bar>))"

text \<open>
  \<open>10 ** p\<close> for a non-negative integer \<open>p\<close>: the double nearest to the power. The
  language leaves the last bit of \<open>**\<close> to the implementation, and from \<open>p = 23\<close> on,
  where the power is no double, an engine may return the neighbour of the nearest double
  (as happens at \<open>p = 26\<close>); there the definition is the correctly rounded value and
  not every engine's. The results below rest only on what the engines agree on: the
  power is exact up to \<open>p = 22\<close>, finite and positive up to \<open>p = 308\<close>, \<open>Infinity\<close>
  from \<open>p = 309\<close> on, and \<open>99999999999999991611392\<close> at \<open>p = 23\<close>.
\<close>

definition numberPow10 :: "nat \<Rightarrow> nat option" where
  "numberPow10 p = roundToDouble (10 ^ p)"

text \<open>
  \<open>percent * divisor\<close> for an integer-valued \<open>percent\<close>. With an infinite \<open>divisor\<close> the
  product is \<open>NaN\<close> or infinite, never a finite Number: \<open>None\<close> again.
\<close>

definition numberTimes :: "int \<Rightarrow> nat option \<Rightarrow> int option" where
  "numberTimes percent divisor =
     (case divisor of None \<Rightarrow> None | Some d \<Rightarrow> roundToDoubleInt (percent * int d))"

text \<open>\<open>BigInt(x)\<close> of an integer-valued or non-finite Number.\<close>

definition toBigInt :: "int option \<Rightarrow> js_error + int" where
  "toBigInt x = (case x of None \<Rightarrow> Inl RangeError | Some v \<Rightarrow> Inr v)"

subsection \<open>BigInt operators\<close>

text \<open>\<open>a / b\<close> and \<open>a % b\<close> on BigInt truncate toward zero and throw on a zero divisor.\<close>

definition bigintDiv :: "int \<Rightarrow> int \<Rightarrow> js_error + int" where
  "bigintDiv a b =
     (if b = 0 then Inl RangeError else Inr (sgn a * sgn b * (\<bar>a\<bar> div \<bar>b\<bar>)))"

definition bigintRem :: "int \<Rightarrow> int \<Rightarrow> js_error + int" where
  "bigintRem a b = (if b = 0 then Inl RangeError else Inr (sgn a * (\<bar>a\<bar> mod \<bar>b\<bar>)))"

subsection \<open>Strings\<close>

text \<open>The decimal digit of a value below ten.\<close>

definition digitChar :: "nat \<Rightarrow> char" where
  "digitChar d = ''0123456789'' ! d"

fun natToString :: "nat \<Rightarrow> string" where
  "natToString n =
     (if n < 10 then [digitChar n] else natToString (n div 10) @ [digitChar (n mod 10)])"

declare natToString.simps [simp del]

text \<open>\<open>x.toString()\<close> for a BigInt or an integer-valued Number.\<close>

definition toString :: "int \<Rightarrow> string" where
  "toString x = (if x < 0 then ''-'' @ natToString (nat (- x)) else natToString (nat x))"

text \<open>\<open>s.padStart(w, c)\<close> for a one-character pad string.\<close>

definition padStart :: "nat \<Rightarrow> char \<Rightarrow> string \<Rightarrow> string" where
  "padStart w c s = replicate (w - length s) c @ s"

section \<open>src/util/bigint.ts\<close>

text \<open>
  \<open>bigintPercent(n, percent, precision = 4)\<close>. \<open>percent\<close> ranges over the integer-valued
  Numbers, on which \<open>Math.round\<close> is the identity; \<open>precision\<close> over the non-negative
  integers. The statements are evaluated in the source's order, so a failing
  \<open>BigInt(Math.round(...))\<close> throws before \<open>BigInt(divisor)\<close> is reached.
\<close>

definition bigintPercent :: "int \<Rightarrow> int \<Rightarrow> nat \<Rightarrow> js_error + int" where
  "bigintPercent n percent precision =
     (let divisor = numberPow10 precision
      in case toBigInt (numberTimes percent divisor) of
           Inl e \<Rightarrow> Inl e
         | Inr mult \<Rightarrow>
             (case toBigInt (map_option int divisor) of
                Inl e \<Rightarrow> Inl e
              | Inr d \<Rightarrow> bigintDiv (n * mult) d))"

text \<open>
  \<open>bigintFormat(n, decimal)\<close>: the function declares these two parameters and no more.
  \<open>decimal\<close> ranges over the non-negative integers.
\<close>

definition bigintFormat :: "int \<Rightarrow> nat \<Rightarrow> js_error + string" where
  "bigintFormat n0 decimal =
     (let sign = (if n0 < 0 then ''-'' else '''');
          n = (if n0 < 0 then - n0 else n0)
      in case toBigInt (map_option int (numberPow10 decimal)) of
           Inl e \<Rightarrow> Inl e
         | Inr dv \<Rightarrow>
             (case bigintRem n dv of
                Inl e \<Rightarrow> Inl e
              | Inr r \<Rightarrow>
                  (let decimalPart = padStart decimal (CHR ''0'') (toString r)
                   in case bigintDiv n dv of
                        Inl e \<Rightarrow> Inl e
                      | Inr q \<Rightarrow> Inr (sign @ toString q @ ''.'' @ decimalPart))))"

text \<open>
  The call shape of \<open>lib/notify.ts\<close>, \<open>bigintFormat(x, 18, 6)\<close>: JavaScript evaluates the
  third actual argument and discards it, since the callee has no third parameter.
\<close>

definition bigintFormat3 :: "int \<Rightarrow> nat \<Rightarrow> nat \<Rightarrow> js_error + string" where
  "bigintFormat3 n decimal displayDigits = bigintFormat n decimal"

subsection \<open>Reading a rendered amount back\<close>

text \<open>
  Modelled from the spec: the parser of the round-trip property ("parsing back to an
  integer at scale \<open>s\<close>"), which the sources do not contain. It reads an optional minus
  sign, a non-empty run of digits, a point and a non-empty run of digits; the fraction
  is cut or zero-filled on the right to \<open>s\<close> digits.
\<close>

definition isDigit :: "char \<Rightarrow> bool" where
  "isDigit c = (48 \<le> (of_char c :: nat) \<and> (of_char c :: nat) \<le> 57)"

definition digitsValue :: "string \<Rightarrow> nat" where
  "digitsValue cs = foldl (\<lambda>a c. 10 * a + (of_char c - 48)) 0 cs"

definition parseFixed :: "nat \<Rightarrow> string \<Rightarrow> int option" where
  "parseFixed s str =
     (let neg = (str \<noteq> [] \<and> hd str = CHR ''-'');
          body = (if neg then tl str else str);
          ip = takeWhile (\<lambda>c. c \<noteq> CHR ''.'') body;
          rest = dropWhile (\<lambda>c. c \<noteq> CHR ''.'') body
      in if ip = [] \<or> \<not> list_all isDigit ip \<or> rest = [] \<or> tl rest = []
            \<or> \<not> list_all isDigit (tl rest)
         then None
         else (let fp = take s (tl rest @ replicate s (CHR ''0''));
                   v = int (digitsValue ip * 10 ^ s + digitsValue fp)
               in Some (if neg then - v else v)))"

section \<open>Collaborators of src/lib/notify.ts\<close>

text \<open>
  The report types, the configuration constants, the logger, the table renderer, the
  serialiser, the redactor and the HTTP client are imported by \<open>lib/notify.ts\<close> from
  modules that are not among the sources. The data types are read off the fields that
  \<open>lib/notify.ts\<close> accesses; the functions are parameters (record \<open>env\<close>), total on the
  values passed to them, except the HTTP client, whose promise may reject.
\<close>

datatype 'a async = Fulfilled 'a | Rejected string

record balances =
  balanceWei :: int
  wnativeBalanceWei :: int
  aggregatedBalanceWei :: int

record statuses =
  error :: nat
  warning :: nat
  notice :: nat
  info :: nat

record profit_summary =
  nativeGasUsedWei :: int
  wnativeProfitWei :: int
  aggregatedProfitWei :: int

record harvest_summary = profit_summary +
  totalStrategies :: nat
  skipped :: nat
  harvested :: nat
  statuses :: statuses

record unwrap_summary = profit_summary +
  success :: bool
  unwrapped :: bool

text \<open>An item of \<open>report.details\<close>; \<open>discordMessage\<close> is \<open>summary.discordMessage\<close> of the item.\<close>

record strat_report =
  discordMessage :: "string option"

record 's report =
  chain :: string
  summary :: 's
  collectorBalanceBefore :: "balances async option"
  collectorBalanceAfter :: "balances async option"

record harvest_report = "harvest_summary report" +
  details :: "strat_report list"

record unwrap_report = "unwrap_summary report" +
  unwrapDecision :: "unit async option"
  unwrapTransaction :: "unit async option"

datatype any_report = Harvest harvest_report | Unwrap unwrap_report

record config =
  DISCORD_REPORT_WEBHOOK_URL :: "string option"
  DISCORD_ALERT_WEBHOOK_URL :: "string option"
  DISCORD_NOTIFY_UNEVENTFUL_HARVEST :: bool
  DISCORD_PING_ROLE_IDS_ON_ERROR :: "string list option"
  REPORT_URL_TEMPLATE :: string

text \<open>
  The values of type \<open>any\<close> and \<open>unknown\<close> that \<open>notifyError\<close> receives: the context data
  (plain data, which may hold BigInt amounts) and the error that was caught.
\<close>

datatype json =
  JNull | JBool bool | JNum int | JStr string | JBigInt int
  | JArr "json list" | JObj "(string \<times> json) list"

datatype unknown_value = ErrorObject js_error | Primitive string | NullPrototypeObject

datatype table_layout = StratCountLayout | BalanceLayout

datatype form_part = PayloadJson string | FileUpload string string

type_synonym form_data = "(string \<times> form_part) list"

record env =
  table :: "table_layout \<Rightarrow> string list list \<Rightarrow> string"
  getChainWNativeTokenSymbol :: "string \<Rightarrow> string"
  toLocaleUpperCase :: "string \<Rightarrow> string"
  removeSecretsFromString :: "string \<Rightarrow> string"
  serializeReport :: "any_report \<Rightarrow> bool \<Rightarrow> string"
  extractErrorMessage :: "unit async \<Rightarrow> string"
  errorToString :: "js_error \<Rightarrow> string"
  jsonText :: "json \<Rightarrow> nat \<Rightarrow> string"
  axiosPost :: "string \<Rightarrow> form_data \<Rightarrow> js_error option"

text \<open>What a call leaves behind, in order: log records and calls of the HTTP client.\<close>

datatype log_level = LogTrace | LogInfo | LogWarn | LogError

datatype effect = Log log_level string "js_error option" | Post string form_data

fun isPost :: "effect \<Rightarrow> bool" where
  "isPost (Post url form) = True"
| "isPost (Log lvl msg e) = False"

text \<open>
  Modelled from the spec: \<open>asyncResultGet\<close> of \<open>util/async.ts\<close>, which is not among the
  sources. On a fulfilled outcome it returns the mapped value, and an error raised by the
  mapping function propagates; on a rejected or absent outcome it returns the
  "unavailable" marker (\<open>None\<close>, JavaScript's \<open>undefined\<close>).
\<close>

definition asyncResultGet ::
  "'a async option \<Rightarrow> ('a \<Rightarrow> js_error + 'b) \<Rightarrow> js_error + 'b option" where
  "asyncResultGet outcome mapFn =
     (case outcome of
        None \<Rightarrow> Inr None
      | Some (Rejected reason) \<Rightarrow> Inr None
      | Some (Fulfilled v) \<Rightarrow> (case mapFn v of Inl e \<Rightarrow> Inl e | Inr y \<Rightarrow> Inr (Some y)))"

section \<open>src/lib/notify.ts\<close>

text \<open>\<open>x || '??'\<close> on a string or \<open>undefined\<close>: the empty string is falsy too.\<close>

definition orUnknown :: "string option \<Rightarrow> string" where
  "orUnknown x = (case x of None \<Rightarrow> ''??'' | Some s \<Rightarrow> if s = [] then ''??'' else s)"

text \<open>Truthiness of a string that may be \<open>undefined\<close>.\<close>

definition truthyString :: "string option \<Rightarrow> bool" where
  "truthyString x = (case x of None \<Rightarrow> False | Some s \<Rightarrow> s \<noteq> [])"

text \<open>\<open>s.replace(pat, rep)\<close> with a string pattern: the first occurrence only.\<close>

fun replaceFirst :: "string \<Rightarrow> string \<Rightarrow> string \<Rightarrow> string" where
  "replaceFirst pat rep [] = (if pat = [] then rep else [])"
| "replaceFirst pat rep (c # cs) =
     (if take (length pat) (c # cs) = pat then rep @ drop (length pat) (c # cs)
      else c # replaceFirst pat rep cs)"

text \<open>An array in a template literal: its elements joined with commas.\<close>

fun joinComma :: "string list \<Rightarrow> string" where
  "joinComma [] = []"
| "joinComma [x] = x"
| "joinComma (x # y # ys) = x @ '','' @ joinComma (y # ys)"

text \<open>Errors of a left-to-right evaluation: the first one raised wins.\<close>

fun sequenceE :: "(js_error + 'a) list \<Rightarrow> js_error + 'a list" where
  "sequenceE [] = Inr []"
| "sequenceE (x # xs) =
     (case x of
        Inl e \<Rightarrow> Inl e
      | Inr v \<Rightarrow> (case sequenceE xs of Inl e \<Rightarrow> Inl e | Inr vs \<Rightarrow> Inr (v # vs)))"

definition newline :: string where
  "newline = [CHR 0x0A]"

definition codeSep :: string where
  "codeSep = replicate 3 (CHR 0x60)"

datatype report_level = INFO | WARNING | ERROR

fun levelRank :: "report_level \<Rightarrow> nat" where
  "levelRank INFO = 0"
| "levelRank WARNING = 1"
| "levelRank ERROR = 2"

text \<open>The level strings of the source; the emoji are written as their UTF-8 bytes.\<close>

fun levelLabel :: "report_level \<Rightarrow> string" where
  "levelLabel ERROR = [CHR 0xF0, CHR 0x9F, CHR 0x94, CHR 0xA5] @ '' ERROR''"
| "levelLabel WARNING =
     [CHR 0xE2, CHR 0x9A, CHR 0xA0, CHR 0xEF, CHR 0xB8, CHR 0x8F] @ '' WARNING''"
| "levelLabel INFO = [CHR 0xE2, CHR 0x84, CHR 0xB9, CHR 0xEF, CHR 0xB8, CHR 0x8F] @ '' INFO''"

subsection \<open>getBalanceReportTable\<close>

text \<open>
  The rendering of one balance field: \<open>asyncResultGet(outcome, mapFn) || '??'\<close>.
\<close>

definition projectOrUnknown ::
  "'a async option \<Rightarrow> ('a \<Rightarrow> js_error + string) \<Rightarrow> js_error + string" where
  "projectOrUnknown outcome mapFn =
     (case asyncResultGet outcome mapFn of Inl e \<Rightarrow> Inl e | Inr x \<Rightarrow> Inr (orUnknown x))"

definition balanceCell ::
  "balances async option \<Rightarrow> (balances \<Rightarrow> int) \<Rightarrow> js_error + string" where
  "balanceCell outcome field = projectOrUnknown outcome (\<lambda>b. bigintFormat3 (field b) 18 6)"

definition profitCell :: "int \<Rightarrow> js_error + string" where
  "profitCell x =
     (case bigintFormat3 x 18 6 of Inl e \<Rightarrow> Inl e | Inr s \<Rightarrow> Inr (orUnknown (Some s)))"

definition getBalanceReportTable ::
  "env \<Rightarrow> ('z profit_summary_scheme, 'r) report_scheme \<Rightarrow> js_error + string" where
  "getBalanceReportTable env report =
     (let wnativeSymbol = getChainWNativeTokenSymbol env (chain report);
          nativeSymbol = drop 1 wnativeSymbol
      in case sequenceE
           [balanceCell (collectorBalanceBefore report) balanceWei,
            balanceCell (collectorBalanceBefore report) wnativeBalanceWei,
            balanceCell (collectorBalanceBefore report) aggregatedBalanceWei,
            balanceCell (collectorBalanceAfter report) balanceWei,
            balanceCell (collectorBalanceAfter report) wnativeBalanceWei,
            balanceCell (collectorBalanceAfter report) aggregatedBalanceWei,
            profitCell (nativeGasUsedWei (summary report)),
            profitCell (wnativeProfitWei (summary report)),
            profitCell (aggregatedProfitWei (summary report))] of
           Inl e \<Rightarrow> Inl e
         | Inr cells \<Rightarrow>
             Inr (table env BalanceLayout
                    [[[], nativeSymbol, wnativeSymbol, ''sum''],
                     ''before'' # take 3 cells,
                     ''after'' # take 3 (drop 3 cells),
                     ''profit'' # drop 6 cells]))"

subsection \<open>Parts shared by the entry points\<close>

text \<open>
  The \<open>try\<close> block: one call of the HTTP client; \<open>catchAndLog\<close> is its \<open>catch\<close> clause,
  which runs when the promise rejects, writes two log records and ends the call.
\<close>

definition catchAndLog :: "js_error option \<Rightarrow> effect list" where
  "catchAndLog outcome =
     (case outcome of
        None \<Rightarrow> []
      | Some e \<Rightarrow>
          [Log LogError ''something went wrong sending discord message'' (Some e),
           Log LogTrace [] (Some e)])"

definition dispatch :: "env \<Rightarrow> string \<Rightarrow> form_data \<Rightarrow> effect list" where
  "dispatch env url form = Post url form # catchAndLog (axiosPost env url form)"

definition reportUrlMarkdown :: "config \<Rightarrow> int option \<Rightarrow> string" where
  "reportUrlMarkdown cfg db_raw_report_id =
     (let reportUrl =
            (case db_raw_report_id of
               None \<Rightarrow> []
             | Some i \<Rightarrow>
                 if i \<noteq> 0
                 then replaceFirst ''{{reportId}}'' (toString i) (REPORT_URL_TEMPLATE cfg)
                 else [])
      in ''[full report]('' @ reportUrl @ '')'')"

definition roleMentions :: "string list option \<Rightarrow> string" where
  "roleMentions ids =
     (case ids of
        None \<Rightarrow> []
      | Some rs \<Rightarrow> joinComma (map (\<lambda>roleId. ''<@&'' @ roleId @ ''>'') rs))"

definition reportFileName :: "string \<Rightarrow> string" where
  "reportFileName c = ''report_'' @ c @ ''.json''"

definition webhookNotSet :: "string \<Rightarrow> effect" where
  "webhookNotSet name = Log LogWarn (name @ '' not set, not sending any discord message'') None"

subsection \<open>notifyHarvestReport\<close>

definition harvestUneventful :: "harvest_report \<Rightarrow> bool" where
  "harvestUneventful report =
     (harvested (summary report) = 0 \<and> error (statuses (summary report)) = 0
      \<and> warning (statuses (summary report)) = 0 \<and> notice (statuses (summary report)) = 0)"

definition harvestReportLevel :: "harvest_summary \<Rightarrow> report_level" where
  "harvestReportLevel s =
     (if error (statuses s) > 0 then ERROR
      else if warning (statuses s) > 0 then WARNING
      else INFO)"

definition stratCountTableStr :: "env \<Rightarrow> harvest_report \<Rightarrow> string" where
  "stratCountTableStr env report =
     table env StratCountLayout
       [[''strategies'', toString (int (totalStrategies (summary report)))],
        [''skipped'', toString (int (skipped (summary report)))],
        [''info'', toString (int (info (statuses (summary report))))],
        [''notices'', toString (int (notice (statuses (summary report))))],
        [''warnings'', toString (int (warning (statuses (summary report))))],
        [''errors'', toString (int (error (statuses (summary report))))],
        [''harvested'', toString (int (harvested (summary report)))]]"

definition harvestErrorDetails :: "harvest_report \<Rightarrow> string" where
  "harvestErrorDetails report =
     concat (map (\<lambda>stratReport.
                    case discordMessage stratReport of
                      None \<Rightarrow> []
                    | Some m \<Rightarrow> if m \<noteq> [] then m @ newline else [])
                 (details report))"

definition harvestRolePing :: "config \<Rightarrow> harvest_report \<Rightarrow> string" where
  "harvestRolePing cfg report =
     (if (error (statuses (summary report)) > 0 \<or> warning (statuses (summary report)) > 0
          \<or> DISCORD_NOTIFY_UNEVENTFUL_HARVEST cfg)
         \<and> DISCORD_PING_ROLE_IDS_ON_ERROR cfg \<noteq> None
         \<and> False
      then roleMentions (DISCORD_PING_ROLE_IDS_ON_ERROR cfg)
      else [])"

definition harvestContent ::
  "env \<Rightarrow> config \<Rightarrow> harvest_report \<Rightarrow> int option \<Rightarrow> js_error + string" where
  "harvestContent env cfg report db_raw_report_id =
     (case getBalanceReportTable env report of
        Inl e \<Rightarrow> Inl e
      | Inr balanceTable \<Rightarrow>
          Inr (removeSecretsFromString env
                 (newline @ ''### Harvest '' @ levelLabel (harvestReportLevel (summary report))
                    @ '' for '' @ toLocaleUpperCase env (chain report) @ newline
                  @ reportUrlMarkdown cfg db_raw_report_id @ newline
                  @ codeSep @ newline
                  @ stratCountTableStr env report @ newline
                  @ balanceTable @ newline
                  @ codeSep @ newline
                  @ harvestErrorDetails report @ newline
                  @ harvestRolePing cfg report)))"

definition notifyHarvestReport ::
  "env \<Rightarrow> config \<Rightarrow> harvest_report \<Rightarrow> int option \<Rightarrow> js_error + effect list" where
  "notifyHarvestReport env cfg report db_raw_report_id =
     (if \<not> truthyString (DISCORD_REPORT_WEBHOOK_URL cfg)
      then Inr [webhookNotSet ''DISCORD_REPORT_WEBHOOK_URL'']
      else
        (let url = (case DISCORD_REPORT_WEBHOOK_URL cfg of None \<Rightarrow> [] | Some u \<Rightarrow> u);
             skippedLog =
               (if harvestUneventful report
                then [Log LogInfo ''All strats were skipped, not reporting'' None] else [])
         in if harvestUneventful report \<and> \<not> DISCORD_NOTIFY_UNEVENTFUL_HARVEST cfg
            then Inr skippedLog
            else
              (case harvestContent env cfg report db_raw_report_id of
                 Inl e \<Rightarrow> Inl e
               | Inr content \<Rightarrow>
                   Inr (skippedLog
                        @ [Log LogInfo ''notifying harvest for report'' None]
                        @ dispatch env url
                            [(''payload_json'', PayloadJson content),
                             (''file1'',
                              FileUpload (reportFileName (chain report))
                                (serializeReport env (Harvest report) True))]))))"

subsection \<open>notifyUnwrapReport\<close>

definition unwrapUneventful :: "unwrap_report \<Rightarrow> bool" where
  "unwrapUneventful report =
     (success (summary report) = True \<and> unwrapped (summary report) = False)"

definition unwrapReportLevel :: "unwrap_summary \<Rightarrow> report_level" where
  "unwrapReportLevel s = (if \<not> success s then ERROR else INFO)"

definition unwrapFailureLine :: "env \<Rightarrow> string \<Rightarrow> unit async option \<Rightarrow> string" where
  "unwrapFailureLine env what outcome =
     (case outcome of
        Some (Rejected reason) \<Rightarrow>
          ''- '' @ [CHR 0xF0, CHR 0x9F, CHR 0x94, CHR 0xA5] @ '' Unwrap '' @ what
            @ '' failed: '' @ extractErrorMessage env (Rejected reason) @ newline
      | _ \<Rightarrow> [])"

definition unwrapErrorDetails :: "env \<Rightarrow> unwrap_report \<Rightarrow> string" where
  "unwrapErrorDetails env report =
     unwrapFailureLine env ''decision'' (unwrapDecision report)
       @ unwrapFailureLine env ''transaction'' (unwrapTransaction report)"

definition unwrapRolePing :: "config \<Rightarrow> unwrap_report \<Rightarrow> string" where
  "unwrapRolePing cfg report =
     (if (\<not> success (summary report) \<or> DISCORD_NOTIFY_UNEVENTFUL_HARVEST cfg)
         \<and> DISCORD_PING_ROLE_IDS_ON_ERROR cfg \<noteq> None
         \<and> False
      then roleMentions (DISCORD_PING_ROLE_IDS_ON_ERROR cfg)
      else [])"

definition unwrapContent ::
  "env \<Rightarrow> config \<Rightarrow> unwrap_report \<Rightarrow> int option \<Rightarrow> js_error + string" where
  "unwrapContent env cfg report db_raw_report_id =
     (case (if unwrapped (summary report)
            then (case getBalanceReportTable env report of
                    Inl e \<Rightarrow> Inl e
                  | Inr balanceTable \<Rightarrow> Inr (codeSep @ balanceTable @ codeSep))
            else Inr []) of
        Inl e \<Rightarrow> Inl e
      | Inr balancePart \<Rightarrow>
          Inr (removeSecretsFromString env
                 (newline @ ''### Wnative unwrap '' @ levelLabel (unwrapReportLevel (summary report))
                    @ '' for '' @ toLocaleUpperCase env (chain report) @ newline
                  @ reportUrlMarkdown cfg db_raw_report_id @ newline
                  @ balancePart @ ''  '' @ newline
                  @ unwrapErrorDetails env report @ newline
                  @ unwrapRolePing cfg report)))"

definition notifyUnwrapReport ::
  "env \<Rightarrow> config \<Rightarrow> unwrap_report \<Rightarrow> int option \<Rightarrow> js_error + effect list" where
  "notifyUnwrapReport env cfg report db_raw_report_id =
     (if \<not> truthyString (DISCORD_REPORT_WEBHOOK_URL cfg)
      then Inr [webhookNotSet ''DISCORD_REPORT_WEBHOOK_URL'']
      else
        (let url = (case DISCORD_REPORT_WEBHOOK_URL cfg of None \<Rightarrow> [] | Some u \<Rightarrow> u);
             skippedLog =
               (if unwrapUneventful report
                then [Log LogInfo ''Did not unwrap anything, not reporting'' None] else [])
         in if unwrapUneventful report \<and> \<not> DISCORD_NOTIFY_UNEVENTFUL_HARVEST cfg
            then Inr skippedLog
            else
              (case unwrapContent env cfg report db_raw_report_id of
                 Inl e \<Rightarrow> Inl e
               | Inr content \<Rightarrow>
                   Inr (skippedLog
                        @ [Log LogInfo ''notifying unwrap report'' None]
                        @ dispatch env url
                            [(''payload_json'', PayloadJson content),
                             (''file1'',
                              FileUpload (reportFileName (chain report))
                                (serializeReport env (Unwrap report) True))]))))"

subsection \<open>notifyError\<close>

record error_ctx =
  doing :: string
  data :: json

text \<open>
  \<open>JSON.stringify(value, null, indent)\<close> throws a \<open>TypeError\<close> when it meets a BigInt; the
  text of a value without one is left to the parameter \<open>jsonText\<close>.
\<close>

fun containsBigInt :: "json \<Rightarrow> bool" where
  "containsBigInt (JBigInt n) = True"
| "containsBigInt (JArr items) = list_ex containsBigInt items"
| "containsBigInt (JObj members) = list_ex containsBigInt (map snd members)"
| "containsBigInt v = False"

definition jsonStringify :: "env \<Rightarrow> json \<Rightarrow> nat \<Rightarrow> js_error + string" where
  "jsonStringify env v indent =
     (if containsBigInt v then Inl TypeError else Inr (jsonText env v indent))"

text \<open>\<open>String(error)\<close> of the value that was caught.\<close>

definition stringOf :: "env \<Rightarrow> unknown_value \<Rightarrow> js_error + string" where
  "stringOf env v =
     (case v of
        ErrorObject e \<Rightarrow> Inr (errorToString env e)
      | Primitive s \<Rightarrow> Inr s
      | NullPrototypeObject \<Rightarrow> Inl TypeError)"

text \<open>
  The template literal of the message. It is evaluated before the \<open>try\<close> block is
  entered, \<open>String(error)\<close> first and \<open>JSON.stringify\<close> after it, so what they throw
  leaves \<open>notifyError\<close>.
\<close>

definition errorContent :: "env \<Rightarrow> error_ctx \<Rightarrow> unknown_value \<Rightarrow> js_error + string" where
  "errorContent env ctx err =
     (case stringOf env err of
        Inl e \<Rightarrow> Inl e
      | Inr errorText \<Rightarrow>
          (case jsonStringify env (data ctx) 2 of
             Inl e \<Rightarrow> Inl e
           | Inr dataText \<Rightarrow>
               Inr (removeSecretsFromString env
                      (newline @ ''### '' @ [CHR 0xF0, CHR 0x9F, CHR 0x9A, CHR 0xA8]
                         @ '' ERROR while '' @ doing ctx @ newline
                       @ codeSep @ newline
                       @ errorText @ newline
                       @ codeSep @ newline
                       @ codeSep @ newline
                       @ dataText @ newline
                       @ codeSep @ newline))))"

definition notifyError ::
  "env \<Rightarrow> config \<Rightarrow> error_ctx \<Rightarrow> unknown_value \<Rightarrow> js_error + effect list" where
  "notifyError env cfg ctx err =
     (if \<not> truthyString (DISCORD_ALERT_WEBHOOK_URL cfg)
      then Inr [webhookNotSet ''DISCORD_ALERT_WEBHOOK_URL'']
      else
        (let url = (case DISCORD_ALERT_WEBHOOK_URL cfg of None \<Rightarrow> [] | Some u \<Rightarrow> u)
         in case errorContent env ctx err of
              Inl e \<Rightarrow> Inl e
            | Inr content \<Rightarrow>
                Inr (Log LogInfo ''notifying error'' None
                     # dispatch env url [(''payload_json'', PayloadJson content)])))"

section \<open>Concrete collaborators and reports\<close>

definition exampleEnv :: env where
  "exampleEnv =
     \<lparr>table = (\<lambda>layout rows. ''<table>''),
      getChainWNativeTokenSymbol = (\<lambda>c. ''WBNB''),
      toLocaleUpperCase = (\<lambda>c. ''BSC''),
      removeSecretsFromString = (\<lambda>text. text),
      serializeReport = (\<lambda>r pretty. ''{}''),
      extractErrorMessage = (\<lambda>outcome. ''reverted''),
      errorToString = (\<lambda>e. ''Error''),
      jsonText = (\<lambda>j indent. ''null''),
      axiosPost = (\<lambda>url form. None)\<rparr>"

definition exampleConfig :: config where
  "exampleConfig =
     \<lparr>DISCORD_REPORT_WEBHOOK_URL = Some ''https://discord.test/report'',
      DISCORD_ALERT_WEBHOOK_URL = Some ''https://discord.test/alert'',
      DISCORD_NOTIFY_UNEVENTFUL_HARVEST = False,
      DISCORD_PING_ROLE_IDS_ON_ERROR = Some [''42''],
      REPORT_URL_TEMPLATE = ''https://reports.test/{{reportId}}''\<rparr>"

definition quietStatuses :: statuses where
  "quietStatuses = \<lparr>error = 0, warning = 0, notice = 0, info = 10\<rparr>"

definition quietHarvest :: harvest_report where
  "quietHarvest =
     \<lparr>chain = ''bsc'',
      summary = \<lparr>nativeGasUsedWei = 0, wnativeProfitWei = 0, aggregatedProfitWei = 0,
                 totalStrategies = 10, skipped = 10, harvested = 0, statuses = quietStatuses\<rparr>,
      collectorBalanceBefore = None,
      collectorBalanceAfter = Some (Rejected ''timeout''),
      details = []\<rparr>"

definition quietUnwrap :: unwrap_report where
  "quietUnwrap =
     \<lparr>chain = ''bsc'',
      summary = \<lparr>nativeGasUsedWei = 0, wnativeProfitWei = 0, aggregatedProfitWei = 0,
                 success = True, unwrapped = False\<rparr>,
      collectorBalanceBefore = None,
      collectorBalanceAfter = None,
      unwrapDecision = None,
      unwrapTransaction = None\<rparr>"



definition bigintCtx :: error_ctx where
  "bigintCtx = \<lparr>doing = ''harvesting'', data = JObj [(''gasUsed'', JBigInt 21000)]\<rparr>"

section \<open>Numbers: when the double is the exact power\<close>

lemma bitLength_le_iff: "bitLength n \<le> b \<longleftrightarrow> n < 2 ^ b"
proof (induction n arbitrary: b rule: bitLength.induct)
  case (1 n)
  show ?case
  proof (cases "n = 0")
    case True
    then show ?thesis by (simp add: bitLength.simps)
  next
    case False
    show ?thesis
    proof (cases b)
      case 0
      with False show ?thesis by (simp add: bitLength.simps [of n])
    next
      case (Suc b')
      have "bitLength (n div 2) \<le> b' \<longleftrightarrow> n div 2 < 2 ^ b'"
        using 1 [OF False] .
      moreover have "n div 2 < 2 ^ b' \<longleftrightarrow> n < 2 * 2 ^ b'"
        by presburger
      ultimately show ?thesis
        using False Suc by (simp add: bitLength.simps [of n])
    qed
  qed
qed

lemma pow_bitLength_le: "0 < n \<Longrightarrow> 2 ^ (bitLength n - 1) \<le> n"
proof -
  assume pos: "0 < n"
  have "\<not> bitLength n \<le> bitLength n - 1"
    using pos by (simp add: bitLength.simps [of n])
  then show ?thesis
    by (simp add: bitLength_le_iff)
qed

lemma roundToDouble_exact:
  assumes k: "k = m * 2 ^ j" and m: "m < 2 ^ 53" and fin: "k < 2 ^ 1024"
  shows "roundToDouble k = Some k"
proof -
  define e where "e = bitLength k - 53"
  have "k < 2 ^ 53 * 2 ^ j"
    using k m by simp
  then have "k < 2 ^ (53 + j)"
    by (simp add: power_add)
  then have "bitLength k \<le> 53 + j"
    by (simp add: bitLength_le_iff)
  then have "e \<le> j"
    by (simp add: e_def)
  then have "(2::nat) ^ e dvd 2 ^ j"
    by (rule le_imp_power_dvd)
  then have dv: "2 ^ e dvd k"
    using k by simp
  then have r: "k mod 2 ^ e = 0" and q: "k div 2 ^ e * 2 ^ e = k"
    by simp_all
  show ?thesis
    unfolding roundToDouble_def Let_def e_def [symmetric]
    using r q fin by simp
qed

lemma roundToDoubleInt_small:
  assumes "\<bar>x\<bar> < 2 ^ 53"
  shows "roundToDoubleInt x = Some x"
proof -
  have m: "nat \<bar>x\<bar> < 2 ^ 53"
    using assms by (simp add: nat_less_iff)
  then have "nat \<bar>x\<bar> < 2 ^ 1024"
    by (rule less_trans) simp
  then have "roundToDouble (nat \<bar>x\<bar>) = Some (nat \<bar>x\<bar>)"
    using m by (intro roundToDouble_exact [where m = "nat \<bar>x\<bar>" and j = 0]) simp_all
  then show ?thesis
    by (simp add: roundToDoubleInt_def mult_sgn_abs)
qed

lemma numberPow10_exact:
  assumes "p \<le> 22"
  shows "numberPow10 p = Some (10 ^ p)"
proof -
  have "(5::nat) ^ p \<le> 5 ^ 22"
    using assms by (intro power_increasing) simp_all
  then have m: "(5::nat) ^ p < 2 ^ 53"
    by simp
  have "(10::nat) ^ p \<le> 10 ^ 22"
    using assms by (intro power_increasing) simp_all
  then have fin: "(10::nat) ^ p < 2 ^ 1024"
    by simp
  have "(10::nat) ^ p = (5 * 2) ^ p"
    by simp
  then have k: "(10::nat) ^ p = 5 ^ p * 2 ^ p"
    by (simp only: power_mult_distrib)
  show ?thesis
    unfolding numberPow10_def by (rule roundToDouble_exact [OF k m fin])
qed

lemma roundToDouble_finite:
  assumes "k < 2 ^ 1024 - 2 ^ 971"
  shows "\<exists>v. roundToDouble k = Some v \<and> (0 < k \<longrightarrow> 0 < v)"
proof -
  define e where "e = bitLength k - 53"
  define q where "q = k div 2 ^ e"
  define r where "r = k mod 2 ^ e"
  define q' where "q' = (if 2 ^ e < 2 * r \<or> (2 * r = 2 ^ e \<and> odd q) then q + 1 else q)"
  have "k < 2 ^ 1024"
    using assms by simp
  then have "bitLength k \<le> 1024"
    by (simp add: bitLength_le_iff)
  then have "e \<le> 971"
    by (simp add: e_def)
  then have pe: "(2::nat) ^ e \<le> 2 ^ 971"
    by (intro power_increasing) simp_all
  have "q' \<le> q + 1"
    by (simp add: q'_def)
  then have "q' * 2 ^ e \<le> (q + 1) * 2 ^ e"
    by (rule mult_le_mono1)
  also have "\<dots> = q * 2 ^ e + 2 ^ e"
    by (simp add: algebra_simps)
  also have "\<dots> \<le> k + 2 ^ e"
    by (simp add: q_def)
  also have "\<dots> \<le> k + 2 ^ 971"
    using pe by simp
  also have "\<dots> < 2 ^ 1024"
    using assms by simp
  finally have fin: "q' * 2 ^ e < 2 ^ 1024" .
  have pos: "0 < q' * 2 ^ e" if "0 < k"
  proof -
    have "2 ^ (bitLength k - 1) \<le> k"
      using that by (rule pow_bitLength_le)
    moreover have "(2::nat) ^ e \<le> 2 ^ (bitLength k - 1)"
      by (intro power_increasing) (simp_all add: e_def)
    ultimately have "2 ^ e \<le> k"
      by (rule order_trans [rotated])
    then have "0 < q"
      by (simp add: q_def div_greater_zero_iff)
    then have "0 < q'"
      by (simp add: q'_def)
    then show ?thesis
      by simp
  qed
  show ?thesis
    unfolding roundToDouble_def Let_def e_def [symmetric] q_def [symmetric] r_def [symmetric]
      q'_def [symmetric]
    using fin pos by simp
qed

lemma numberPow10_finite:
  assumes "p \<le> 308"
  shows "\<exists>d. numberPow10 p = Some d \<and> 0 < d"
proof -
  have "(10::nat) ^ p \<le> 10 ^ 308"
    using assms by (intro power_increasing) simp_all
  also have "\<dots> < 2 ^ 1024 - 2 ^ 971"
    by simp
  finally have "(10::nat) ^ p < 2 ^ 1024 - 2 ^ 971" .
  from roundToDouble_finite [OF this] show ?thesis
    by (simp add: numberPow10_def)
qed

lemma roundToDouble_overflow:
  assumes "2 ^ 1024 \<le> k"
  shows "roundToDouble k = None"
proof -
  define e where "e = bitLength k - 53"
  define q where "q = k div 2 ^ e"
  define r where "r = k mod 2 ^ e"
  define q' where "q' = (if 2 ^ e < 2 * r \<or> (2 * r = 2 ^ e \<and> odd q) then q + 1 else q)"
  have "\<not> bitLength k \<le> 1024"
    using assms by (simp add: bitLength_le_iff)
  then have e: "1024 \<le> e + 52" and b: "bitLength k - 1 = e + 52"
    by (simp_all add: e_def)
  have "0 < k"
    using assms by (simp add: less_le_trans [of 0 "2 ^ 1024"])
  then have "2 ^ (bitLength k - 1) \<le> k"
    by (rule pow_bitLength_le)
  then have "2 ^ (e + 52) \<le> k"
    unfolding b .
  then have "2 ^ (e + 52) div 2 ^ e \<le> q"
    unfolding q_def by (rule div_le_mono)
  then have "2 ^ 52 \<le> q"
    by (simp add: power_add)
  then have "2 ^ 52 \<le> q'"
    by (simp add: q'_def)
  then have "2 ^ 52 * 2 ^ e \<le> q' * 2 ^ e"
    by (rule mult_le_mono1)
  then have "2 ^ (e + 52) \<le> q' * 2 ^ e"
    by (simp add: power_add mult.commute)
  moreover have "(2::nat) ^ 1024 \<le> 2 ^ (e + 52)"
    using e by (intro power_increasing) simp_all
  ultimately have "\<not> q' * 2 ^ e < 2 ^ 1024"
    by simp
  then show ?thesis
    unfolding roundToDouble_def Let_def e_def [symmetric] q_def [symmetric] r_def [symmetric]
      q'_def [symmetric]
    by simp
qed

lemma numberPow10_overflow:
  assumes "309 \<le> p"
  shows "numberPow10 p = None"
proof -
  have "(2::nat) ^ 1024 \<le> 10 ^ 309"
    by simp
  also have "\<dots> \<le> 10 ^ p"
    using assms by (intro power_increasing) simp_all
  finally show ?thesis
    unfolding numberPow10_def by (rule roundToDouble_overflow)
qed

text \<open>
  From 23 digits on the power of ten is no double any more: \<open>10 ^ 23\<close> lies halfway
  between two doubles and rounds to the even one below it.
\<close>

lemma bitLength_eqI: "2 ^ b \<le> n \<Longrightarrow> n < 2 ^ Suc b \<Longrightarrow> bitLength n = Suc b"
proof -
  assume lo: "2 ^ b \<le> n" and hi: "n < 2 ^ Suc b"
  have "bitLength n \<le> Suc b"
    using hi by (simp only: bitLength_le_iff)
  moreover have "\<not> bitLength n \<le> b"
    using lo by (simp add: bitLength_le_iff)
  ultimately show ?thesis
    by simp
qed

lemma numberPow10_23: "numberPow10 23 = Some 99999999999999991611392"
proof -
  have b: "bitLength (10 ^ 23) = Suc 76"
    by (rule bitLength_eqI) simp_all
  show ?thesis
    unfolding numberPow10_def roundToDouble_def Let_def b by simp
qed

section \<open>BigInt division and the decimal rendering\<close>

lemma bigintDiv_mult: "0 < d \<Longrightarrow> bigintDiv (a * d) d = Inr a"
  by (simp add: bigintDiv_def sgn_mult abs_mult mult_sgn_abs)

lemma of_char_digitChar: "d < 10 \<Longrightarrow> (of_char (digitChar d) :: nat) = 48 + d"
proof -
  assume "d < 10"
  then have "d \<in> {0, 1, 2, 3, 4, 5, 6, 7, 8, 9}"
    by auto
  then show ?thesis
    by (auto simp add: digitChar_def)
qed

lemma isDigit_digitChar: "d < 10 \<Longrightarrow> isDigit (digitChar d)"
  by (simp add: isDigit_def of_char_digitChar)

lemma natToString_digits: "list_all isDigit (natToString n)"
proof (induction n rule: natToString.induct)
  case (1 n)
  show ?case
  proof (cases "n < 10")
    case True
    then show ?thesis
      by (simp add: natToString.simps [of n] isDigit_digitChar)
  next
    case False
    then show ?thesis
      using 1 by (simp add: natToString.simps [of n] isDigit_digitChar)
  qed
qed

lemma natToString_nonempty: "natToString n \<noteq> []"
  by (simp add: natToString.simps [of n])

lemma digitsValue_snoc: "digitsValue (cs @ [c]) = 10 * digitsValue cs + (of_char c - 48)"
  by (simp add: digitsValue_def)

lemma digitsValue_natToString: "digitsValue (natToString n) = n"
proof (induction n rule: natToString.induct)
  case (1 n)
  show ?case
  proof (cases "n < 10")
    case True
    then show ?thesis
      by (simp add: natToString.simps [of n] digitsValue_def of_char_digitChar)
  next
    case False
    then have "digitsValue (natToString (n div 10)) = n div 10"
      using 1 by simp
    then show ?thesis
      using False
      by (simp add: natToString.simps [of n] digitsValue_snoc of_char_digitChar)
  qed
qed

lemma natToString_length: "0 < s \<Longrightarrow> n < 10 ^ s \<Longrightarrow> length (natToString n) \<le> s"
proof (induction n arbitrary: s rule: natToString.induct)
  case (1 n)
  show ?case
  proof (cases "n < 10")
    case True
    then show ?thesis
      using 1(2) by (simp add: natToString.simps [of n] Suc_leI)
  next
    case False
    obtain t where s: "s = Suc t"
      using 1(2) by (cases s) simp_all
    have "0 < t"
      using False 1(3) s by (cases t) simp_all
    moreover have "n div 10 < 10 ^ t"
      using 1(3) s by (simp add: less_mult_imp_div_less mult.commute)
    ultimately have "length (natToString (n div 10)) \<le> t"
      using 1(1) [OF False] by simp
    then show ?thesis
      using False s by (simp add: natToString.simps [of n])
  qed
qed

lemma digitsValue_zeros: "digitsValue (replicate k (CHR ''0'') @ cs) = digitsValue cs"
proof -
  have "foldl (\<lambda>a c. 10 * a + (of_char c - 48)) (0::nat) (replicate k (CHR ''0'')) = 0"
    by (induction k) simp_all
  then show ?thesis
    by (simp add: digitsValue_def)
qed

lemma isDigit_not_dot: "isDigit c \<Longrightarrow> c \<noteq> CHR ''.''"
  by (auto simp add: isDigit_def)

lemma isDigit_not_minus: "isDigit c \<Longrightarrow> c \<noteq> CHR ''-''"
  by (auto simp add: isDigit_def)

lemma takeWhile_digits:
  "list_all isDigit ip \<Longrightarrow> takeWhile (\<lambda>c. c \<noteq> CHR ''.'') (ip @ CHR ''.'' # fp) = ip"
  by (induction ip) (simp_all add: isDigit_not_dot)

lemma dropWhile_digits:
  "list_all isDigit ip \<Longrightarrow>
     dropWhile (\<lambda>c. c \<noteq> CHR ''.'') (ip @ CHR ''.'' # fp) = CHR ''.'' # fp"
  by (induction ip) (simp_all add: isDigit_not_dot)

lemma parseFixed_unsigned:
  assumes ip: "list_all isDigit ip" "ip \<noteq> []" and fp: "list_all isDigit fp" "fp \<noteq> []"
  shows "parseFixed s (ip @ CHR ''.'' # fp) =
           Some (int (digitsValue ip * 10 ^ s
                      + digitsValue (take s (fp @ replicate s (CHR ''0'')))))"
proof -
  have "hd (ip @ CHR ''.'' # fp) \<noteq> CHR ''-''"
    using ip by (cases ip) (simp_all add: isDigit_not_minus)
  then show ?thesis
    using assms by (simp add: parseFixed_def takeWhile_digits dropWhile_digits)
qed

lemma parseFixed_signed:
  assumes ip: "list_all isDigit ip" "ip \<noteq> []" and fp: "list_all isDigit fp" "fp \<noteq> []"
  shows "parseFixed s (CHR ''-'' # ip @ CHR ''.'' # fp) =
           Some (- int (digitsValue ip * 10 ^ s
                      + digitsValue (take s (fp @ replicate s (CHR ''0'')))))"
  using assms by (simp add: parseFixed_def takeWhile_digits dropWhile_digits)

lemma replicate_numeral: "replicate (numeral k) x = x # replicate (pred_numeral k) x"
  by (simp add: numeral_eq_Suc)

lemma padStart_digits:
  "list_all isDigit cs \<Longrightarrow> list_all isDigit (padStart w (CHR ''0'') cs)"
  by (auto simp add: padStart_def list_all_iff isDigit_def)

lemma padStart_nonempty: "cs \<noteq> [] \<Longrightarrow> padStart w c cs \<noteq> []"
  by (simp add: padStart_def)

lemma fraction_value:
  assumes "r < 10 ^ s"
  shows "digitsValue (take s (padStart s (CHR ''0'') (natToString r) @ replicate s (CHR ''0'')))
           = r"
proof (cases s)
  case 0
  then show ?thesis
    using assms by (simp add: digitsValue_def)
next
  case (Suc t)
  then have "length (natToString r) \<le> s"
    using assms by (intro natToString_length) simp_all
  then have "length (padStart s (CHR ''0'') (natToString r)) = s"
    by (simp add: padStart_def)
  then have "take s (padStart s (CHR ''0'') (natToString r) @ replicate s (CHR ''0''))
               = padStart s (CHR ''0'') (natToString r)"
    by simp
  then show ?thesis
    by (simp add: padStart_def digitsValue_zeros digitsValue_natToString)
qed

text \<open>What \<open>bigintFormat\<close> returns once the divisor is known.\<close>

lemma bigintFormat_divisor:
  assumes "numberPow10 s = Some d" and "0 < d"
  shows "bigintFormat raw s =
           Inr ((if raw < 0 then ''-'' else []) @ natToString (nat \<bar>raw\<bar> div d) @ ''.''
                  @ padStart s (CHR ''0'') (natToString (nat \<bar>raw\<bar> mod d)))"
proof -
  have rem: "bigintRem \<bar>raw\<bar> (int d) = Inr (int (nat \<bar>raw\<bar> mod d))"
    using assms(2) by (simp add: bigintRem_def sgn_if zmod_int)
  have quo: "bigintDiv \<bar>raw\<bar> (int d) = Inr (int (nat \<bar>raw\<bar> div d))"
    using assms(2) by (simp add: bigintDiv_def sgn_if zdiv_int)
  have n: "(if raw < 0 then - raw else raw) = \<bar>raw\<bar>"
    by simp
  show ?thesis
    unfolding bigintFormat_def Let_def n
    by (simp add: assms(1) toBigInt_def rem quo toString_def)
qed

lemma bigintFormat_exact:
  assumes "s \<le> 22"
  shows "bigintFormat raw s =
           Inr ((if raw < 0 then ''-'' else []) @ natToString (nat \<bar>raw\<bar> div 10 ^ s) @ ''.''
                  @ padStart s (CHR ''0'') (natToString (nat \<bar>raw\<bar> mod 10 ^ s)))"
  by (rule bigintFormat_divisor [OF numberPow10_exact [OF assms]]) simp

lemma bigintFormat_returns:
  assumes "s \<le> 308"
  shows "\<exists>str. bigintFormat raw s = Inr str \<and> str \<noteq> []"
proof -
  obtain d where "numberPow10 s = Some d" and "0 < d"
    using numberPow10_finite [OF assms] by blast
  then show ?thesis
    by (simp add: bigintFormat_divisor)
qed

lemma bigintFormat_overflow: "309 \<le> s \<Longrightarrow> bigintFormat raw s = Inl RangeError"
  by (simp add: bigintFormat_def numberPow10_overflow toBigInt_def)

section \<open>The message is always assembled\<close>

lemma projectOrUnknown_unavailable:
  "outcome = None \<or> outcome = Some (Rejected reason) \<Longrightarrow>
     projectOrUnknown outcome mapFn = Inr ''??''"
  by (auto simp add: projectOrUnknown_def asyncResultGet_def orUnknown_def)

lemma projectOrUnknown_fulfilled:
  "projectOrUnknown (Some (Fulfilled v)) mapFn =
     (case mapFn v of Inl e \<Rightarrow> Inl e | Inr y \<Rightarrow> Inr (if y = [] then ''??'' else y))"
  by (simp add: projectOrUnknown_def asyncResultGet_def orUnknown_def split: sum.splits)

lemma balanceCell_returns: "\<exists>cell. balanceCell outcome field = Inr cell"
proof (cases outcome)
  case None
  then show ?thesis
    by (simp add: balanceCell_def projectOrUnknown_unavailable)
next
  case (Some a)
  show ?thesis
  proof (cases a)
    case (Fulfilled v)
    obtain str where "bigintFormat (field v) 18 = Inr str"
      using bigintFormat_returns [of 18 "field v"] by auto
    then show ?thesis
      using Some Fulfilled
      by (simp add: balanceCell_def projectOrUnknown_fulfilled bigintFormat3_def)
  next
    case (Rejected reason)
    then show ?thesis
      using Some by (simp add: balanceCell_def projectOrUnknown_unavailable)
  qed
qed

lemma profitCell_returns: "\<exists>cell. profitCell x = Inr cell"
proof -
  obtain str where "bigintFormat x 18 = Inr str"
    using bigintFormat_returns [of 18 x] by auto
  then show ?thesis
    by (simp add: profitCell_def bigintFormat3_def)
qed

lemma sequenceE_returns:
  "\<forall>x \<in> set xs. \<exists>v. x = Inr v \<Longrightarrow> \<exists>vs. sequenceE xs = Inr vs"
proof (induction xs)
  case Nil
  show ?case by simp
next
  case (Cons x xs)
  then obtain v vs where "x = Inr v" and "sequenceE xs = Inr vs"
    by auto
  then show ?case by simp
qed

lemma getBalanceReportTable_returns: "\<exists>t. getBalanceReportTable env report = Inr t"
proof -
  let ?cells =
    "[balanceCell (collectorBalanceBefore report) balanceWei,
      balanceCell (collectorBalanceBefore report) wnativeBalanceWei,
      balanceCell (collectorBalanceBefore report) aggregatedBalanceWei,
      balanceCell (collectorBalanceAfter report) balanceWei,
      balanceCell (collectorBalanceAfter report) wnativeBalanceWei,
      balanceCell (collectorBalanceAfter report) aggregatedBalanceWei,
      profitCell (nativeGasUsedWei (summary report)),
      profitCell (wnativeProfitWei (summary report)),
      profitCell (aggregatedProfitWei (summary report))]"
  have "\<forall>x \<in> set ?cells. \<exists>v. x = Inr v"
    by (simp add: balanceCell_returns profitCell_returns)
  then obtain vs where "sequenceE ?cells = Inr vs"
    using sequenceE_returns by blast
  then show ?thesis
    by (simp add: getBalanceReportTable_def Let_def)
qed

lemma harvestContent_returns: "\<exists>content. harvestContent env cfg report rid = Inr content"
proof -
  obtain t where "getBalanceReportTable env report = Inr t"
    using getBalanceReportTable_returns by blast
  then show ?thesis
    by (simp add: harvestContent_def)
qed


lemma dispatch_posts_once: "filter isPost (dispatch env url form) = [Post url form]"
  by (simp add: dispatch_def catchAndLog_def split: option.splits)


section \<open>Reading the rendering back\<close>

text \<open>
  The rendering divides by the divisor \<open>d\<close> that \<open>BigInt(10 ** s)\<close> gives, and the reading
  multiplies by \<open>10 ^ s\<close>: the two agree when \<open>d\<close> is the exact power.
\<close>

lemma parseFixed_bigintFormat:
  assumes d: "numberPow10 s = Some d" "0 < d" "d \<le> 10 ^ s"
  shows "\<exists>str. bigintFormat raw s = Inr str
               \<and> parseFixed s str =
                   Some (if raw < 0
                         then - int (nat \<bar>raw\<bar> div d * 10 ^ s + nat \<bar>raw\<bar> mod d)
                         else int (nat \<bar>raw\<bar> div d * 10 ^ s + nat \<bar>raw\<bar> mod d))"
proof -
  define q where "q = nat \<bar>raw\<bar> div d"
  define r where "r = nat \<bar>raw\<bar> mod d"
  define ip where "ip = natToString q"
  define fp where "fp = padStart s (CHR ''0'') (natToString r)"
  have ip: "list_all isDigit ip" "ip \<noteq> []"
    by (simp_all add: ip_def natToString_digits natToString_nonempty)
  have fp: "list_all isDigit fp" "fp \<noteq> []"
    by (simp_all add: fp_def padStart_digits natToString_digits padStart_nonempty
        natToString_nonempty)
  have "r < d"
    using d(2) by (simp add: r_def)
  then have "r < 10 ^ s"
    using d(3) by (rule less_le_trans)
  then have frac: "digitsValue (take s (fp @ replicate s (CHR ''0''))) = r"
    unfolding fp_def by (rule fraction_value)
  have val: "digitsValue ip = q"
    by (simp add: ip_def digitsValue_natToString)
  have fmt: "bigintFormat raw s = Inr ((if raw < 0 then ''-'' else []) @ ip @ ''.'' @ fp)"
    unfolding ip_def fp_def q_def r_def by (rule bigintFormat_divisor [OF d(1) d(2)])
  show ?thesis
  proof (cases "raw < 0")
    case True
    have "parseFixed s (CHR ''-'' # ip @ CHR ''.'' # fp) = Some (- int (q * 10 ^ s + r))"
      unfolding parseFixed_signed [OF ip fp] frac val by simp
    then show ?thesis
      using True fmt by (simp add: q_def r_def)
  next
    case False
    have "parseFixed s (ip @ CHR ''.'' # fp) = Some (int (q * 10 ^ s + r))"
      unfolding parseFixed_unsigned [OF ip fp] frac val by simp
    then show ?thesis
      using False fmt by (simp add: q_def r_def)
  qed
qed

lemma bigintFormat_roundtrip_exact:
  assumes "s \<le> 22"
  shows "\<exists>str. bigintFormat raw s = Inr str \<and> parseFixed s str = Some raw"
proof -
  have "nat \<bar>raw\<bar> div 10 ^ s * 10 ^ s + nat \<bar>raw\<bar> mod 10 ^ s = nat \<bar>raw\<bar>"
    by (rule div_mult_mod_eq)
  then have e: "int (nat \<bar>raw\<bar> div 10 ^ s * 10 ^ s + nat \<bar>raw\<bar> mod 10 ^ s) = \<bar>raw\<bar>"
    by (simp only: int_nat_eq) simp
  obtain str where "bigintFormat raw s = Inr str"
    and "parseFixed s str =
           Some (if raw < 0
                 then - int (nat \<bar>raw\<bar> div 10 ^ s * 10 ^ s + nat \<bar>raw\<bar> mod 10 ^ s)
                 else int (nat \<bar>raw\<bar> div 10 ^ s * 10 ^ s + nat \<bar>raw\<bar> mod 10 ^ s))"
    using parseFixed_bigintFormat [OF numberPow10_exact [OF assms], of raw] by auto
  then show ?thesis
    unfolding e by auto
qed

text \<open>
  The message text of \<open>notifyError\<close> cannot be built from context data that holds a
  BigInt: \<open>JSON.stringify\<close> throws, outside the \<open>try\<close> block, and the call raises.
\<close>

lemma notifyError_unserialisable:
  "notifyError exampleEnv exampleConfig bigintCtx (ErrorObject RangeError) = Inl TypeError"
  by (simp add: notifyError_def exampleConfig_def truthyString_def errorContent_def
      stringOf_def jsonStringify_def bigintCtx_def)

section \<open>Claims on src/util/bigint.ts\<close>

text \<open>
  C1. The spec expects \<open>format(50000000000000, 18, 6)\<close> to be \<open>"0.000050"\<close>, the fraction cut
  to six digits. \<open>bigintFormat\<close> has no display-digits parameter, so the call of
  \<open>lib/notify.ts\<close> with the arguments \<open>(50000000000000, 18, 6)\<close> renders all eighteen
  fractional digits: the leading zeros are kept, the fraction is not cut.
\<close>

theorem bigintFormat_keeps_all_fraction_digits:
  "bigintFormat3 50000000000000 18 6 = Inr ''0.000050000000000000''
   \<and> bigintFormat3 50000000000000 18 6 \<noteq> Inr ''0.000050''"
  by (simp add: bigintFormat3_def bigintFormat_exact natToString.simps digitChar_def
      padStart_def replicate_numeral)

text \<open>
  C2, as stated, at \<open>raw = 1\<close>: with \<open>percent = 100\<close> and precision 4 the multiplier is
  \<open>1000000\<close> and the divisor \<open>10000\<close>, so the result is \<open>100\<close>, not \<open>raw\<close>.
\<close>

theorem bigintPercent_100_counterexample:
  "bigintPercent 1 100 4 = Inr 100 \<and> bigintPercent 1 100 4 \<noteq> Inr 1"
proof -
  have "bigintPercent 1 100 4 = bigintDiv (100 * 10000) 10000"
    by (simp add: bigintPercent_def numberPow10_exact numberTimes_def
        roundToDoubleInt_small toBigInt_def)
  also have "\<dots> = Inr 100"
    by (rule bigintDiv_mult) simp
  finally show ?thesis
    by simp
qed

text \<open>
  C2, amended. \<open>percent\<close> is a plain factor: \<open>bigintPercent(raw, 0, precision)\<close> is \<open>0\<close> for
  every \<open>raw\<close> and every precision up to 308 (beyond, \<open>10 ** precision\<close> is \<open>Infinity\<close> and
  the call throws); \<open>bigintPercent(raw, 1, 4)\<close> is \<open>raw\<close>; \<open>bigintPercent(raw, 100, 4)\<close> is
  \<open>100 * raw\<close>.
\<close>

theorem bigintPercent_factor:
  "(precision \<le> 308 \<longrightarrow> bigintPercent raw 0 precision = Inr 0)
   \<and> bigintPercent raw 1 4 = Inr raw
   \<and> bigintPercent raw 100 4 = Inr (100 * raw)"
proof (intro conjI impI)
  assume "precision \<le> 308"
  then obtain d where d: "numberPow10 precision = Some d" "0 < d"
    using numberPow10_finite by blast
  then show "bigintPercent raw 0 precision = Inr 0"
    by (simp add: bigintPercent_def numberTimes_def roundToDoubleInt_small toBigInt_def
        bigintDiv_def)
next
  have "bigintPercent raw 1 4 = bigintDiv (raw * 10000) 10000"
    by (simp add: bigintPercent_def numberPow10_exact numberTimes_def
        roundToDoubleInt_small toBigInt_def)
  also have "\<dots> = Inr raw"
    by (rule bigintDiv_mult) simp
  finally show "bigintPercent raw 1 4 = Inr raw" .
next
  have "bigintPercent raw 100 4 = bigintDiv (raw * 1000000) 10000"
    by (simp add: bigintPercent_def numberPow10_exact numberTimes_def
        roundToDoubleInt_small toBigInt_def)
  also have "\<dots> = bigintDiv (100 * raw * 10000) 10000"
    by (simp add: mult.commute)
  also have "\<dots> = Inr (100 * raw)"
    by (rule bigintDiv_mult) simp
  finally show "bigintPercent raw 100 4 = Inr (100 * raw)" .
qed

theorem bigintPercent_factor_witness:
  "(4::nat) \<le> 308 \<and> bigintPercent (-7) 0 4 = Inr 0 \<and> bigintPercent (-7) 1 4 = Inr (-7)
   \<and> bigintPercent (-7) 100 4 = Inr (-700)"
  using bigintPercent_factor [of 4 "-7"] by simp

text \<open>
  C6, as stated, at \<open>bigintFormat(1, 2, 3)\<close>: three display digits are asked for at scale
  two, and the call returns \<open>"0.01"\<close>; nothing is raised.
\<close>

theorem bigintFormat_excess_digits_counterexample:
  "bigintFormat3 1 2 3 = Inr ''0.01''"
  by (simp add: bigintFormat3_def bigintFormat_exact natToString.simps digitChar_def
      padStart_def replicate_numeral)

text \<open>
  C6, amended. The source has no precision check and no \<open>InvalidPrecision\<close> error: a format
  call is not rejected for the number of display digits it asks for, also when that number
  exceeds the scale. For every scale up to 308 and every such request the call returns a
  string.
\<close>

theorem bigintFormat_not_rejected:
  assumes "decimal \<le> 308"
  shows "\<exists>str. bigintFormat3 n decimal displayDigits = Inr str"
  using bigintFormat_returns [OF assms, of n] by (auto simp add: bigintFormat3_def)

theorem bigintFormat_not_rejected_witness:
  "(2::nat) \<le> 308 \<and> (2::nat) < 3 \<and> (\<exists>str. bigintFormat3 1 2 3 = Inr str)"
  using bigintFormat_not_rejected [of 2 1 3] by simp

text \<open>
  C7. The round trip at full precision should recover \<open>raw\<close> at every scale. At scale 23
  it does not: \<open>BigInt(10 ** 23)\<close> is \<open>99999999999999991611392\<close>, since the power is
  computed on doubles, so \<open>bigintFormat(10n ** 23n, 23)\<close> renders one unit and a fraction
  of \<open>8388608\<close>, which reads back as \<open>10 ^ 23 + 8388608\<close>.
\<close>

theorem bigintFormat_roundtrip_fails_at_23:
  "bigintFormat (10 ^ 23) 23 = Inr ''1.00000000000000008388608''
   \<and> parseFixed 23 ''1.00000000000000008388608'' = Some (10 ^ 23 + 8388608)
   \<and> parseFixed 23 ''1.00000000000000008388608'' \<noteq> Some (10 ^ 23)"
proof -
  have fmt: "bigintFormat (10 ^ 23) 23 = Inr ''1.00000000000000008388608''"
    unfolding bigintFormat_divisor [OF numberPow10_23, simplified]
    by (simp add: natToString.simps digitChar_def padStart_def replicate_numeral)
  obtain str where "bigintFormat (10 ^ 23) 23 = Inr str"
    and "parseFixed 23 str = Some (10 ^ 23 + 8388608)"
    using parseFixed_bigintFormat [OF numberPow10_23, of "10 ^ 23"] by auto
  then have "parseFixed 23 ''1.00000000000000008388608'' = Some (10 ^ 23 + 8388608)"
    using fmt by simp
  then show ?thesis
    using fmt by simp
qed

theorem bigintFormat_roundtrip_fails_at_23_witness:
  "(case bigintFormat 100000000000000000000000 23 of
      Inl e \<Rightarrow> None
    | Inr str \<Rightarrow> parseFixed 23 str) = Some 100000000000000008388608"
  using bigintFormat_roundtrip_fails_at_23 by simp

section \<open>Claims on src/lib/notify.ts\<close>

text \<open>
  C3. The level of a harvest report is \<open>ERROR\<close> when \<open>statuses.error > 0\<close>, otherwise
  \<open>WARNING\<close> when \<open>statuses.warning > 0\<close>, otherwise \<open>INFO\<close>; no other count of the summary
  changes it; and one more error never lowers it in the order \<open>INFO < WARNING < ERROR\<close>.
  It is this level that heads the message. The earlier revision of the file among the sources classifies in the same way.
\<close>

theorem harvestReportLevel_classification:
  "harvestReportLevel s =
     (if error (statuses s) > 0 then ERROR
      else if warning (statuses s) > 0 then WARNING else INFO)
   \<and> harvestReportLevel
        (s\<lparr>statuses := (statuses s)\<lparr>notice := n, info := i\<rparr>,
            harvested := h, skipped := k, totalStrategies := t\<rparr>)
       = harvestReportLevel s
   \<and> levelRank (harvestReportLevel s)
       \<le> levelRank
            (harvestReportLevel (s\<lparr>statuses := (statuses s)\<lparr>error := error (statuses s) + 1\<rparr>\<rparr>))
   \<and> (\<exists>rest. harvestContent env cfg report rid =
                Inr (removeSecretsFromString env
                       (newline @ ''### Harvest ''
                          @ levelLabel (harvestReportLevel (summary report)) @ rest)))"
proof -
  obtain balanceTable where t: "getBalanceReportTable env report = Inr balanceTable"
    using getBalanceReportTable_returns by blast
  have "\<exists>rest. harvestContent env cfg report rid =
                Inr (removeSecretsFromString env
                       (newline @ ''### Harvest ''
                          @ levelLabel (harvestReportLevel (summary report)) @ rest))"
    unfolding harvestContent_def t by (simp only: sum.case, intro exI, rule refl)
  then show ?thesis
    by (simp add: harvestReportLevel_def)
qed

theorem harvestReportLevel_classification_witness:
  "harvestReportLevel (summary quietHarvest) = INFO
   \<and> harvestReportLevel
        ((summary quietHarvest)\<lparr>statuses := quietStatuses\<lparr>notice := 3, info := 0\<rparr>,
            harvested := 5, skipped := 2, totalStrategies := 10\<rparr>) = INFO
   \<and> harvestReportLevel ((summary quietHarvest)\<lparr>statuses := quietStatuses\<lparr>error := 1\<rparr>\<rparr>)
       = ERROR"
  using harvestReportLevel_classification
          [where s = "summary quietHarvest" and n = 3 and i = 0 and h = 5 and k = 2 and t = 10]
  by (simp add: quietHarvest_def quietStatuses_def harvestReportLevel_def)

text \<open>
  C4. For a harvest report with \<open>harvested = 0\<close> and no error, warning or notice: when
  the flag is false the call makes no dispatch; when the flag is true, the report webhook
  being configured (the first gate, which the policy presupposes), the level is \<open>INFO\<close>
  and the call makes exactly one dispatch, to that webhook, carrying the assembled
  content and the serialised report.
\<close>

theorem uneventful_harvest_policy:
  assumes "harvested (summary report) = 0"
    and "error (statuses (summary report)) = 0"
    and "warning (statuses (summary report)) = 0"
    and "notice (statuses (summary report)) = 0"
  shows "(\<not> DISCORD_NOTIFY_UNEVENTFUL_HARVEST cfg \<longrightarrow>
            (\<exists>effects. notifyHarvestReport env cfg report rid = Inr effects
                       \<and> filter isPost effects = []))
       \<and> (DISCORD_NOTIFY_UNEVENTFUL_HARVEST cfg \<and> DISCORD_REPORT_WEBHOOK_URL cfg = Some url
            \<and> url \<noteq> [] \<longrightarrow>
            harvestReportLevel (summary report) = INFO
            \<and> (\<exists>effects content.
                  notifyHarvestReport env cfg report rid = Inr effects
                  \<and> harvestContent env cfg report rid = Inr content
                  \<and> filter isPost effects =
                      [Post url
                         [(''payload_json'', PayloadJson content),
                          (''file1'',
                           FileUpload (reportFileName (chain report))
                             (serializeReport env (Harvest report) True))]]))"
proof (intro conjI impI)
  assume "\<not> DISCORD_NOTIFY_UNEVENTFUL_HARVEST cfg"
  then show "\<exists>effects. notifyHarvestReport env cfg report rid = Inr effects
                      \<and> filter isPost effects = []"
    using assms
    by (simp add: notifyHarvestReport_def harvestUneventful_def webhookNotSet_def Let_def)
next
  assume "DISCORD_NOTIFY_UNEVENTFUL_HARVEST cfg \<and> DISCORD_REPORT_WEBHOOK_URL cfg = Some url
            \<and> url \<noteq> []"
  then show "harvestReportLevel (summary report) = INFO"
    using assms by (simp add: harvestReportLevel_def)
next
  assume cfg: "DISCORD_NOTIFY_UNEVENTFUL_HARVEST cfg \<and> DISCORD_REPORT_WEBHOOK_URL cfg = Some url
            \<and> url \<noteq> []"
  obtain content where content: "harvestContent env cfg report rid = Inr content"
    using harvestContent_returns by blast
  show "\<exists>effects content.
          notifyHarvestReport env cfg report rid = Inr effects
          \<and> harvestContent env cfg report rid = Inr content
          \<and> filter isPost effects =
              [Post url
                 [(''payload_json'', PayloadJson content),
                  (''file1'',
                   FileUpload (reportFileName (chain report))
                     (serializeReport env (Harvest report) True))]]"
    using cfg assms content
    by (simp add: notifyHarvestReport_def harvestUneventful_def truthyString_def Let_def
        dispatch_posts_once)
qed

theorem uneventful_harvest_policy_witness:
  "harvested (summary quietHarvest) = 0 \<and> error (statuses (summary quietHarvest)) = 0
   \<and> warning (statuses (summary quietHarvest)) = 0
   \<and> notice (statuses (summary quietHarvest)) = 0
   \<and> \<not> DISCORD_NOTIFY_UNEVENTFUL_HARVEST exampleConfig
   \<and> (\<exists>effects. notifyHarvestReport exampleEnv exampleConfig quietHarvest None = Inr effects
                 \<and> filter isPost effects = [])
   \<and> DISCORD_NOTIFY_UNEVENTFUL_HARVEST (exampleConfig\<lparr>DISCORD_NOTIFY_UNEVENTFUL_HARVEST := True\<rparr>)
   \<and> harvestReportLevel (summary quietHarvest) = INFO
   \<and> (\<exists>effects content.
         notifyHarvestReport exampleEnv
           (exampleConfig\<lparr>DISCORD_NOTIFY_UNEVENTFUL_HARVEST := True\<rparr>) quietHarvest None
           = Inr effects
         \<and> filter isPost effects =
             [Post ''https://discord.test/report''
                [(''payload_json'', PayloadJson content),
                 (''file1'', FileUpload ''report_bsc.json'' ''{}'')]])"
  using uneventful_harvest_policy
          [of quietHarvest exampleConfig exampleEnv None "''https://discord.test/report''"]
        uneventful_harvest_policy
          [of quietHarvest "exampleConfig\<lparr>DISCORD_NOTIFY_UNEVENTFUL_HARVEST := True\<rparr>"
              exampleEnv None "''https://discord.test/report''"]
  by (auto simp add: quietHarvest_def quietStatuses_def exampleConfig_def exampleEnv_def
      reportFileName_def)

text \<open>
  C5. For an unwrap report with \<open>success = true\<close> and \<open>unwrapped = false\<close>, with the flag
  false, \<open>notifyUnwrapReport\<close> returns and the HTTP client has not been called. The earlier
  revision of the file among the sources has the same gate.
\<close>

theorem uneventful_unwrap_no_dispatch:
  assumes "success (summary report) = True" and "unwrapped (summary report) = False"
    and "\<not> DISCORD_NOTIFY_UNEVENTFUL_HARVEST cfg"
  shows "\<exists>effects. notifyUnwrapReport env cfg report rid = Inr effects
                   \<and> filter isPost effects = []"
  using assms
  by (simp add: notifyUnwrapReport_def unwrapUneventful_def webhookNotSet_def Let_def)

theorem uneventful_unwrap_no_dispatch_witness:
  "success (summary quietUnwrap) = True \<and> unwrapped (summary quietUnwrap) = False
   \<and> \<not> DISCORD_NOTIFY_UNEVENTFUL_HARVEST exampleConfig
   \<and> notifyUnwrapReport exampleEnv exampleConfig quietUnwrap None
       = Inr [Log LogInfo ''Did not unwrap anything, not reporting'' None]"
  using uneventful_unwrap_no_dispatch [of quietUnwrap exampleConfig exampleEnv None]
  by (simp add: quietUnwrap_def exampleConfig_def notifyUnwrapReport_def unwrapUneventful_def
      truthyString_def)



text \<open>
  C9. The projection of a field (\<open>asyncResultGet\<close> followed by the fallback) is safe in
  every outcome state: with any mapping function \<open>f\<close> it returns a rendered string and
  raises nothing, and on a rejected or absent outcome the string is \<open>"??"\<close> whatever is
  supplied as mapping function, be it one that could fail. On a fulfilled outcome the
  result is the mapping function's; the balance fields of \<open>getBalanceReportTable\<close> always
  render.
\<close>

theorem projection_safe:
  "(\<exists>cell. projectOrUnknown outcome (\<lambda>v. Inr (f v)) = Inr cell)
   \<and> (outcome = None \<or> outcome = Some (Rejected reason) \<longrightarrow>
        projectOrUnknown outcome mapFn = Inr ''??'')
   \<and> (\<forall>v. outcome = Some (Fulfilled v) \<longrightarrow>
         projectOrUnknown outcome mapFn =
           (case mapFn v of Inl e \<Rightarrow> Inl e | Inr y \<Rightarrow> Inr (if y = [] then ''??'' else y)))
   \<and> (\<exists>cell. balanceCell balanceOutcome field = Inr cell)"
proof (intro conjI)
  show "\<exists>cell. projectOrUnknown outcome (\<lambda>v. Inr (f v)) = Inr cell"
  proof (cases outcome)
    case None
    then show ?thesis
      by (simp add: projectOrUnknown_unavailable)
  next
    case (Some settled)
    then show ?thesis
      by (cases settled) (simp_all add: projectOrUnknown_fulfilled projectOrUnknown_unavailable)
  qed
  show "outcome = None \<or> outcome = Some (Rejected reason) \<longrightarrow>
          projectOrUnknown outcome mapFn = Inr ''??''"
    using projectOrUnknown_unavailable [of outcome reason mapFn] by blast
  show "\<forall>v. outcome = Some (Fulfilled v) \<longrightarrow>
         projectOrUnknown outcome mapFn =
           (case mapFn v of Inl e \<Rightarrow> Inl e | Inr y \<Rightarrow> Inr (if y = [] then ''??'' else y))"
    by (simp add: projectOrUnknown_fulfilled)
  show "\<exists>cell. balanceCell balanceOutcome field = Inr cell"
    by (rule balanceCell_returns)
qed

theorem projection_safe_witness:
  "projectOrUnknown (Some (Rejected ''timeout'')) (\<lambda>v::int. bigintFormat v 309) = Inr ''??''
   \<and> projectOrUnknown None (\<lambda>v::int. bigintFormat v 309) = Inr ''??''
   \<and> (\<exists>cell. projectOrUnknown (Some (Fulfilled (5::int))) (\<lambda>v. Inr (toString v)) = Inr cell)"
  using projection_safe
          [where outcome = "Some (Rejected ''timeout'')" and reason = "''timeout''"
             and mapFn = "\<lambda>v::int. bigintFormat v 309"]
        projection_safe
          [where outcome = None and reason = "''timeout''"
             and mapFn = "\<lambda>v::int. bigintFormat v 309"]
        projection_safe
          [where outcome = "Some (Fulfilled (5::int))" and f = toString]
  by simp

text \<open>
  C10. In \<open>lib/notify.ts\<close> the role-ping part of the message is the empty string for every
  report and every configuration, in \<open>notifyHarvestReport\<close> and in \<open>notifyUnwrapReport\<close>:
  the condition ends in \<open>&& false\<close>. The text handed to the redactor therefore ends with
  the error details and the line break that precedes the role ping.
\<close>

theorem rolePing_disabled:
  "harvestRolePing cfg hreport = [] \<and> unwrapRolePing cfg ureport = []
   \<and> (\<exists>body. harvestContent env cfg hreport rid =
                Inr (removeSecretsFromString env (body @ harvestErrorDetails hreport @ newline)))
   \<and> (\<exists>body. unwrapContent env cfg ureport rid =
                Inr (removeSecretsFromString env
                       (body @ unwrapErrorDetails env ureport @ newline)))"
proof (intro conjI)
  show "harvestRolePing cfg hreport = []"
    by (simp add: harvestRolePing_def)
  show "unwrapRolePing cfg ureport = []"
    by (simp add: unwrapRolePing_def)
next
  obtain balanceTable where t: "getBalanceReportTable env hreport = Inr balanceTable"
    using getBalanceReportTable_returns by blast
  define body where
    "body = newline @ ''### Harvest '' @ levelLabel (harvestReportLevel (summary hreport))
              @ '' for '' @ toLocaleUpperCase env (chain hreport) @ newline
            @ reportUrlMarkdown cfg rid @ newline
            @ codeSep @ newline
            @ stratCountTableStr env hreport @ newline
            @ balanceTable @ newline
            @ codeSep @ newline"
  have "harvestContent env cfg hreport rid =
          Inr (removeSecretsFromString env (body @ harvestErrorDetails hreport @ newline))"
    by (simp add: harvestContent_def t body_def harvestRolePing_def)
  then show "\<exists>body. harvestContent env cfg hreport rid =
                Inr (removeSecretsFromString env (body @ harvestErrorDetails hreport @ newline))"
    by blast
next
  obtain balancePart where
    t: "(if unwrapped (summary ureport)
         then (case getBalanceReportTable env ureport of
                 Inl e \<Rightarrow> Inl e
               | Inr balanceTable \<Rightarrow> Inr (codeSep @ balanceTable @ codeSep))
         else Inr []) = Inr balancePart"
    using getBalanceReportTable_returns [of env ureport] by (cases "unwrapped (summary ureport)") auto
  define body where
    "body = newline @ ''### Wnative unwrap '' @ levelLabel (unwrapReportLevel (summary ureport))
              @ '' for '' @ toLocaleUpperCase env (chain ureport) @ newline
            @ reportUrlMarkdown cfg rid @ newline
            @ balancePart @ ''  '' @ newline"
  have "unwrapContent env cfg ureport rid =
          Inr (removeSecretsFromString env (body @ unwrapErrorDetails env ureport @ newline))"
    unfolding unwrapContent_def t by (simp add: body_def unwrapRolePing_def)
  then show "\<exists>body. unwrapContent env cfg ureport rid =
                Inr (removeSecretsFromString env
                       (body @ unwrapErrorDetails env ureport @ newline))"
    by blast
qed

theorem rolePing_disabled_witness:
  "harvestRolePing (exampleConfig\<lparr>DISCORD_NOTIFY_UNEVENTFUL_HARVEST := True\<rparr>) quietHarvest = []
   \<and> unwrapRolePing (exampleConfig\<lparr>DISCORD_NOTIFY_UNEVENTFUL_HARVEST := True\<rparr>)
        (quietUnwrap\<lparr>summary := (summary quietUnwrap)\<lparr>success := False\<rparr>\<rparr>)
       = []"
  using rolePing_disabled
          [where cfg = "exampleConfig\<lparr>DISCORD_NOTIFY_UNEVENTFUL_HARVEST := True\<rparr>"
             and hreport = quietHarvest
             and ureport = "quietUnwrap\<lparr>summary := (summary quietUnwrap)\<lparr>success := False\<rparr>\<rparr>"]
  by simp

end
